theory Spec2Isabelle
  imports Main "HOL-Library.Word"
begin

section \<open>The gold bolt hook of gb\_sp\_as\_helper (gold\_bolt.c)\<close>

text \<open>
  The translation unit \<^verbatim>\<open>gold_bolt.c\<close> holds one function, \<^verbatim>\<open>_start\<close>, which the game
  calls in place of the gold bolt's update function. It reads \<^verbatim>\<open>self->state\<close> and
  \<^verbatim>\<open>((struct GoldBoltVars * )self->pvars)->number\<close>, updates the int at
  \<^verbatim>\<open>0x00aff000\<close> (\<^verbatim>\<open>n_gold_bolts_collected\<close>) and the char table at \<^verbatim>\<open>0x00aff004\<close>
  (\<^verbatim>\<open>collected_bolt\<close>), and then calls the game's own update function at \<^verbatim>\<open>0x1d9d48\<close>
  (\<^verbatim>\<open>gold_bolt_update_func\<close>) on the same pointer.
\<close>

subsection \<open>Data\<close>

text \<open>Pointers of the game are 32-bit addresses (see the offsets below).\<close>

type_synonym addr = "32 word"

text \<open>
  \<^verbatim>\<open>struct Moby\<close>, field by field and in the order of the source. The types \<^verbatim>\<open>vec4\<close> and
  \<^verbatim>\<open>color\<close> come from \<^verbatim>\<open>npea00385.h\<close>; the offsets written in the struct's comments
  (\<^verbatim>\<open>unk_30\<close> at 0x30, \<^verbatim>\<open>unk_34\<close> at 0x34, \<^verbatim>\<open>color\<close> at 0x38, \<^verbatim>\<open>shading\<close> at 0x3c,
  \<^verbatim>\<open>rot\<close> at 0x40, \<^verbatim>\<open>prev_anim_frame\<close> at 0x50) make a pointer 4 bytes, a \<^verbatim>\<open>vec4\<close> 16
  bytes and a \<^verbatim>\<open>color\<close> 4 bytes wide. Values that the hook never computes with
  (vectors, colours, the float \<^verbatim>\<open>scale\<close>) are kept as their raw bits, the three char
  arrays as byte lists.
\<close>

record Moby =
  coll_pos :: "128 word"
  pos :: "128 word"
  state :: "8 word"
  texture_mode :: "8 word"
  opacity :: "16 word"
  model :: addr
  parent :: addr
  scale :: "32 word"
  unk_30 :: "8 word"
  visible :: "8 word"
  render_distance :: "16 word"
  unk_34 :: addr
  color :: "32 word"
  shading :: "32 word"
  rot :: "128 word"
  prev_anim_frame :: "8 word"
  curr_anim_frame :: "8 word"
  updateID :: "8 word"
  asdf :: "8 word list"
  pvars :: addr
  asdf2 :: "8 word list"
  type :: "16 word"
  asdf3 :: "8 word list"

text \<open>\<^verbatim>\<open>struct GoldBoltVars\<close>: the bolt's number, a C \<^verbatim>\<open>int\<close>.\<close>

record GoldBoltVars =
  number :: "32 word"

text \<open>
  The memory the hook works on.
  \<^item> \<open>n_gold_bolts_collected\<close> is the \<^verbatim>\<open>int\<close> at \<^verbatim>\<open>0x00aff000\<close>: a 32-bit word, whose
    \<open>+\<close> wraps around as the machine's addition does.
  \<^item> \<open>collected_bolt\<close> is the table of chars at \<^verbatim>\<open>0x00aff004\<close>, by index. The source
    gives the table no size: the indices that lie inside the host's table are the
    domain of the map, and an access at any other index is a memory fault.
  \<^item> \<open>mobys\<close> and \<open>gold_bolt_vars\<close> are the objects of the host, by address; an address
    outside the domain (null, dangling) is not a valid pointer of that type.
  The counter, the entries of the table and the objects are separate pieces of memory:
  a write to one of them changes no other. The counter's address is fixed and always
  valid.
\<close>

record world =
  n_gold_bolts_collected :: "32 word"
  collected_bolt :: "32 word \<rightharpoonup> 8 word"
  mobys :: "addr \<rightharpoonup> Moby"
  gold_bolt_vars :: "addr \<rightharpoonup> GoldBoltVars"

text \<open>
  The source checks no pointer and no index. An access through an invalid pointer or
  outside the table has no defined result in C and ends the host process; the model
  makes that outcome a value.
\<close>

datatype fault = MemoryFault

subsection \<open>Memory accesses of the hook\<close>

text \<open>\<^verbatim>\<open>vars->number\<close>, with \<^verbatim>\<open>vars = (struct GoldBoltVars * )(self->pvars)\<close>.\<close>

definition load_number :: "addr \<Rightarrow> world \<Rightarrow> fault + 32 word" where
  "load_number vars w =
     (case gold_bolt_vars w vars of
        None \<Rightarrow> Inl MemoryFault
      | Some v \<Rightarrow> Inr (number v))"

text \<open>Reading \<^verbatim>\<open>collected_bolt[n]\<close>.\<close>

definition load_collected_bolt :: "32 word \<Rightarrow> world \<Rightarrow> fault + 8 word" where
  "load_collected_bolt n w =
     (case collected_bolt w n of
        None \<Rightarrow> Inl MemoryFault
      | Some b \<Rightarrow> Inr b)"

text \<open>The assignment \<^verbatim>\<open>collected_bolt[n] = b\<close>.\<close>

definition store_collected_bolt :: "32 word \<Rightarrow> 8 word \<Rightarrow> world \<Rightarrow> fault + world" where
  "store_collected_bolt n b w =
     (case collected_bolt w n of
        None \<Rightarrow> Inl MemoryFault
      | Some _ \<Rightarrow> Inr (w\<lparr>collected_bolt := (collected_bolt w)(n \<mapsto> b)\<rparr>))"

text \<open>The statement \<^verbatim>\<open>n_gold_bolts_collected += 1\<close>, on a 32-bit \<^verbatim>\<open>int\<close>.\<close>

definition increment_n_gold_bolts_collected :: "world \<Rightarrow> world" where
  "increment_n_gold_bolts_collected w =
     w\<lparr>n_gold_bolts_collected := n_gold_bolts_collected w + 1\<rparr>"

subsection \<open>The hook\<close>

text \<open>
  The statements of \<^verbatim>\<open>_start\<close> before the call of \<^verbatim>\<open>gold_bolt_update_func\<close>, in the
  order of the source. The cast that initialises \<^verbatim>\<open>vars\<close> reads \<^verbatim>\<open>self->pvars\<close> only;
  \<^verbatim>\<open>vars->number\<close> is read where a branch uses it, so for a state other than 0 and 2
  \<^verbatim>\<open>pvars\<close> is never dereferenced, and in the branch of state 2 it is read once for the
  test and once more, after the counter's update, for the assignment.
\<close>

definition hook_logic :: "addr \<Rightarrow> world \<Rightarrow> fault + world" where
  "hook_logic self w =
     (case mobys w self of
        None \<Rightarrow> Inl MemoryFault
      | Some m \<Rightarrow>
          let vars = pvars m in
          if state m = 0 then
            (case load_number vars w of
               Inl f \<Rightarrow> Inl f
             | Inr n \<Rightarrow> store_collected_bolt n 0 w)
          else if state m = 2 then
            (case load_number vars w of
               Inl f \<Rightarrow> Inl f
             | Inr n \<Rightarrow>
                 (case load_collected_bolt n w of
                    Inl f \<Rightarrow> Inl f
                  | Inr b \<Rightarrow>
                      if b = 0 then
                        (case load_number vars (increment_n_gold_bolts_collected w) of
                           Inl f \<Rightarrow> Inl f
                         | Inr n' \<Rightarrow>
                             store_collected_bolt n' 1 (increment_n_gold_bolts_collected w))
                      else Inr w))
          else Inr w)"

text \<open>
  \<^verbatim>\<open>_start\<close> itself. The code at \<^verbatim>\<open>0x1d9d48\<close> belongs to the game and is not part of the
  repository, so \<^verbatim>\<open>gold_bolt_update_func\<close> is a parameter: any function of the pointer
  and the memory it is called in.
\<close>

definition start :: "(addr \<Rightarrow> world \<Rightarrow> fault + world) \<Rightarrow> addr \<Rightarrow> world \<Rightarrow> fault + world" where
  "start gold_bolt_update_func self w =
     (case hook_logic self w of
        Inl f \<Rightarrow> Inl f
      | Inr w' \<Rightarrow> gold_bolt_update_func self w')"

subsection \<open>What an invocation reads\<close>

text \<open>The state and the index that an invocation on \<open>self\<close> finds in memory \<open>w\<close>.\<close>

definition state_of :: "world \<Rightarrow> addr \<Rightarrow> 8 word option" where
  "state_of w self = map_option state (mobys w self)"

definition index_of :: "world \<Rightarrow> addr \<Rightarrow> 32 word option" where
  "index_of w self =
     (case mobys w self of
        None \<Rightarrow> None
      | Some m \<Rightarrow> map_option number (gold_bolt_vars w (pvars m)))"

subsection \<open>Sequences of invocations\<close>

text \<open>
  The hook never writes the object's state: the game does, between two calls of the
  hook. An invocation \<open>(self, s)\<close> is the game putting the object at \<open>self\<close> into state
  \<open>s\<close> and then calling the hook on it; the object's index is the one its \<^verbatim>\<open>pvars\<close> hold.
  A sequence of invocations stops at the first memory fault.
\<close>

definition host_sets_state :: "addr \<Rightarrow> 8 word \<Rightarrow> world \<Rightarrow> world" where
  "host_sets_state self s w =
     w\<lparr>mobys := (mobys w)(self := map_option (\<lambda>m. m\<lparr>state := s\<rparr>) (mobys w self))\<rparr>"

definition invoke :: "addr \<times> 8 word \<Rightarrow> world \<Rightarrow> fault + world" where
  "invoke ev w = hook_logic (fst ev) (host_sets_state (fst ev) (snd ev) w)"

fun run :: "(addr \<times> 8 word) list \<Rightarrow> world \<Rightarrow> fault + world" where
  "run [] w = Inr w"
| "run (ev # evs) w =
     (case invoke ev w of
        Inl f \<Rightarrow> Inl f
      | Inr w' \<Rightarrow> run evs w')"



text \<open>
  The memory an invocation needs: the object itself, and in states 0 and 2 its
  \<^verbatim>\<open>pvars\<close> and the table entry of its index.
\<close>

definition accessible :: "world \<Rightarrow> addr \<times> 8 word \<Rightarrow> bool" where
  "accessible w ev =
     (case mobys w (fst ev) of
        None \<Rightarrow> False
      | Some m \<Rightarrow>
          if snd ev = 0 \<or> snd ev = 2 then
            (case index_of w (fst ev) of
               None \<Rightarrow> False
             | Some i \<Rightarrow> collected_bolt w i \<noteq> None)
          else True)"

subsection \<open>A concrete level\<close>

text \<open>
  One gold bolt at address \<^verbatim>\<open>0x1000\<close> in state \<open>s\<close>, its \<^verbatim>\<open>pvars\<close> at \<^verbatim>\<open>0x2000\<close> holding
  number 5; a table of 40 entries, all zero but entry 5, which holds \<open>b\<close>; the counter
  at \<open>c\<close>. With \<open>c = 0\<close> and \<open>b = 0\<close> this is the start of the scenario of the
  specification.
\<close>

definition bolt_moby :: "8 word \<Rightarrow> addr \<Rightarrow> Moby" where
  "bolt_moby s p =
     \<lparr>coll_pos = 0, pos = 0, state = s, texture_mode = 0, opacity = 0, model = 0,
      parent = 0, scale = 0, unk_30 = 0, visible = 1, render_distance = 0, unk_34 = 0,
      color = 0, shading = 0, rot = 0, prev_anim_frame = 0, curr_anim_frame = 0,
      updateID = 0, asdf = replicate 0x25 0, pvars = p, asdf2 = replicate 0x2A 0,
      type = 0, asdf3 = replicate 0x58 0\<rparr>"

definition level :: "8 word \<Rightarrow> 32 word \<Rightarrow> 8 word \<Rightarrow> world" where
  "level s c b =
     \<lparr>n_gold_bolts_collected = c,
      collected_bolt = (\<lambda>n. if n < 40 then Some (if n = 5 then b else 0) else None),
      mobys = [0x1000 \<mapsto> bolt_moby s 0x2000],
      gold_bolt_vars = [0x2000 \<mapsto> \<lparr>number = 5\<rparr>]\<rparr>"

section \<open>Properties of the hook\<close>

subsection \<open>One call of the hook, branch by branch\<close>

lemmas hook_defs = hook_logic_def load_number_def load_collected_bolt_def
  store_collected_bolt_def increment_n_gold_bolts_collected_def state_of_def index_of_def




lemma hook_logic_reset:
  assumes "state_of w self = Some 0" and "index_of w self = Some i"
    and "collected_bolt w i = Some b"
  shows "hook_logic self w = Inr (w\<lparr>collected_bolt := (collected_bolt w)(i \<mapsto> 0)\<rparr>)"
  using assms by (auto simp: hook_defs split: option.splits)

lemma hook_logic_collect:
  assumes "state_of w self = Some 2" and "index_of w self = Some i"
    and "collected_bolt w i = Some 0"
  shows "hook_logic self w =
           Inr (w\<lparr>n_gold_bolts_collected := n_gold_bolts_collected w + 1,
                  collected_bolt := (collected_bolt w)(i \<mapsto> 1)\<rparr>)"
  using assms by (auto simp: hook_defs split: option.splits)

lemma hook_logic_counted:
  assumes "state_of w self = Some 2" and "index_of w self = Some i"
    and "collected_bolt w i = Some b" and "b \<noteq> 0"
  shows "hook_logic self w = Inr w"
  using assms by (auto simp: hook_defs split: option.splits)

lemma hook_logic_other:
  assumes "state_of w self = Some s" and "s \<noteq> 0" and "s \<noteq> 2"
  shows "hook_logic self w = Inr w"
  using assms by (auto simp: hook_defs split: option.splits)

lemma index_of_host_sets_state [simp]:
  "index_of (host_sets_state a s w) b = index_of w b"
  by (simp add: index_of_def host_sets_state_def split: option.splits)

lemma collected_bolt_host_sets_state [simp]:
  "collected_bolt (host_sets_state a s w) = collected_bolt w"
  "n_gold_bolts_collected (host_sets_state a s w) = n_gold_bolts_collected w"
  "gold_bolt_vars (host_sets_state a s w) = gold_bolt_vars w"
  by (simp_all add: host_sets_state_def)









lemma hook_logic_returns:
  assumes "state_of w self = Some s" and "accessible w (self, s)"
  shows "\<exists>w'. hook_logic self w = Inr w'"
proof (cases "s = 0 \<or> s = 2")
  case False
  with assms(1) show ?thesis
    by (simp add: hook_logic_other [of w self s])
next
  case True
  with assms obtain i b where i: "index_of w self = Some i"
    and b: "collected_bolt w i = Some b"
    by (auto simp: accessible_def state_of_def split: option.splits)
  from True show ?thesis
  proof
    assume "s = 0"
    with assms(1) i b show ?thesis
      by (simp add: hook_logic_reset [of w self i b])
  next
    assume 2: "s = 2"
    show ?thesis
    proof (cases "b = 0")
      case True
      with 2 assms(1) i b show ?thesis
        by (simp add: hook_logic_collect [of w self i])
    next
      case False
      with 2 assms(1) i b show ?thesis
        by (simp add: hook_logic_counted [of w self i b])
    qed
  qed
qed






text \<open>What the concrete level holds.\<close>

lemma level_reads:
  "state_of (level s c b) 0x1000 = Some s"
  "index_of (level s c b) 0x1000 = Some 5"
  "collected_bolt (level s c b) 5 = Some b"
  "collected_bolt (level s c b) 4 = Some 0"
  "n_gold_bolts_collected (level s c b) = c"
  by (simp_all add: level_def bolt_moby_def state_of_def index_of_def)


lemma level_accessible: "accessible (level s c b) (0x1000, t)"
  by (simp add: accessible_def level_def index_of_def bolt_moby_def)

subsection \<open>The claims about a single invocation\<close>





text \<open>
  Claim C5. An invocation that finds a state other than 0 and 2 returns with the
  counter and every table entry as they were, and the call of the host's update
  function still takes place, on the unchanged memory. Only the object itself has to
  be valid here: its \<^verbatim>\<open>pvars\<close> are not dereferenced.
\<close>

theorem other_states_pass_through:
  assumes "state_of w self = Some s" and "s \<noteq> 0" and "s \<noteq> 2"
  shows "\<exists>w'. hook_logic self w = Inr w' \<and>
           n_gold_bolts_collected w' = n_gold_bolts_collected w \<and>
           collected_bolt w' = collected_bolt w \<and>
           start gold_bolt_update_func self w = gold_bolt_update_func self w'"
  using assms by (simp add: hook_logic_other [of w self s] start_def)

theorem other_states_pass_through_witness:
  "\<exists>w'. hook_logic 0x1000 (level 1 3 0) = Inr w' \<and>
      n_gold_bolts_collected w' = 3 \<and>
      collected_bolt w' = collected_bolt (level 1 3 0) \<and>
      start (\<lambda>p v. Inr v) 0x1000 (level 1 3 0) = Inr w'"
  using other_states_pass_through [of "level 1 3 0" "0x1000" 1 "\<lambda>p v. Inr v"]
  by (simp add: level_reads)

text \<open>
  Claim C6. Whatever the state of the object, and so whichever branch runs: the hook's
  own statements complete, with some memory \<open>w'\<close>, and the result of \<^verbatim>\<open>_start\<close> is the
  result of one call of the host's update function, on the pointer \<open>self\<close> that \<^verbatim>\<open>_start\<close>
  received and in the memory \<open>w'\<close> that holds the hook's updates. This holds for every
  function standing for the host's code, so neither a second call nor a missing one is
  possible; the memory that the branch reads has to be valid. (In the example below the
  host's function adds 100 to the counter and frees the object: the counter ends at
  101, not at 1 or 201.)
\<close>

theorem start_delegates_after_logic:
  assumes "state_of w self = Some s" and "accessible w (self, s)"
  shows "\<exists>w'. hook_logic self w = Inr w' \<and>
           start gold_bolt_update_func self w = gold_bolt_update_func self w'"
proof -
  from hook_logic_returns [OF assms] obtain w' where "hook_logic self w = Inr w'" ..
  then show ?thesis
    by (simp add: start_def)
qed

theorem start_delegates_after_logic_witness:
  "start (\<lambda>p v. Inr (v\<lparr>n_gold_bolts_collected := n_gold_bolts_collected v + 100,
                         mobys := (mobys v)(p := None)\<rparr>)) 0x1000 (level 2 0 0) =
     Inr ((level 2 0 0)
            \<lparr>n_gold_bolts_collected := 101,
             collected_bolt := (collected_bolt (level 2 0 0))(5 \<mapsto> 1),
             mobys := (mobys (level 2 0 0))(0x1000 := None)\<rparr>)"
proof -
  have "hook_logic 0x1000 (level 2 0 0) =
          Inr ((level 2 0 0)
                 \<lparr>n_gold_bolts_collected := 1,
                  collected_bolt := (collected_bolt (level 2 0 0))(5 \<mapsto> 1)\<rparr>)"
    using hook_logic_collect [of "level 2 0 0" "0x1000" 5] by (simp add: level_reads)
  with start_delegates_after_logic
    [of "level 2 0 0" "0x1000" 2
      "\<lambda>p v. Inr (v\<lparr>n_gold_bolts_collected := n_gold_bolts_collected v + 100,
                    mobys := (mobys v)(p := None)\<rparr>)"]
  show ?thesis
    by (simp add: level_reads level_accessible)
qed





subsection \<open>Invocations one after the other\<close>









subsection \<open>The claims about repeated invocations\<close>






subsection \<open>The table entry of an index along a sequence\<close>









subsection \<open>The counter along a sequence\<close>







subsection \<open>The scenario of the specification\<close>

text \<open>
  Counter 0 and all entries 0; the bolt of index 5 arrives with state 2, again with
  state 2, with state 0, and with state 2: the counter ends at 2 and entry 5 at 1.
\<close>

lemma scenario:
  "map_sum id (\<lambda>w. (n_gold_bolts_collected w, collected_bolt w 5))
     (run [(0x1000, 2), (0x1000, 2), (0x1000, 0), (0x1000, 2)] (level 0 0 0)) =
   Inr (2, Some 1)"
  by (simp add: invoke_def host_sets_state_def hook_defs level_def bolt_moby_def)

end
